theory Spec2Isabelle
  imports Main "HOL-Library.Multiset"
begin

section \<open>Data model of \<^verbatim>\<open>traders/fsm.py\<close>\<close>

text \<open>
  Objects live in a store and are handled through references; two references are equal
  exactly when they denote the same object. Event tokens are values of an arbitrary type
  \<open>'e\<close>. The store the program runs in has the arbitrary type \<open>'w\<close>.
\<close>

type_synonym ref = nat

datatype error = TypeError string

text \<open>
  A callback that is handed to the engine (the \<^verbatim>\<open>run\<close> method of a state, the
  \<^verbatim>\<open>update\<close> function of a transition) is consumer code: it may change the store, and
  it may fail to return normally (it raises or it loops), which is the result \<open>None\<close>.
\<close>

type_synonym ('e, 'w) update_fn = "ref \<Rightarrow> 'e \<Rightarrow> ref \<Rightarrow> 'w \<Rightarrow> 'w option"

record ('e, 'w) Transition =
  current_state :: ref
  event :: 'e
  next_state :: ref
  update :: "('e, 'w) update_fn option"

record ('e, 'w) FiniteStateMachine =
  name :: string
  start_state :: ref
  transitions :: "('e, 'w) Transition list"

text \<open>
  What the engine reaches through object references while it runs:
  \<^item> \<open>self_fsm\<close>: the fields of the machine object \<^verbatim>\<open>self\<close> as they are in the store at
    that moment;
  \<^item> \<open>state_run\<close>, \<open>state_events\<close>, \<open>state_name\<close>: the members \<^verbatim>\<open>run\<close>, \<^verbatim>\<open>events\<close> and
    \<^verbatim>\<open>name\<close> of a state object, found by dynamic dispatch. Running a state may change the
    store; reading its \<^verbatim>\<open>events\<close> or its \<^verbatim>\<open>name\<close> only reads it. A nested machine is a state
    whose \<^verbatim>\<open>run\<close> is the run of the inner machine;
  \<^item> \<open>state_str\<close>: \<^verbatim>\<open>str(state)\<close>, that is what the call prints, and the string it returns
    or the exception it raises;
  \<^item> \<open>state_eq_method\<close>, \<open>state_hash_method\<close>: the methods \<^verbatim>\<open>__eq__\<close> and \<^verbatim>\<open>__hash__\<close> that the
    class of a state object defines, and \<open>None\<close> where the class defines none and the
    method of \<^verbatim>\<open>object\<close> is inherited. \<^verbatim>\<open>State\<close> itself defines neither;
  \<^item> \<open>event_eq\<close>, \<open>event_str\<close>: \<^verbatim>\<open>==\<close> and \<^verbatim>\<open>str\<close> on event tokens.
\<close>

record ('e, 'w) env =
  self_fsm :: "'w \<Rightarrow> ('e, 'w) FiniteStateMachine"
  state_run :: "ref \<Rightarrow> 'w \<Rightarrow> ('e \<times> 'w) option"
  state_events :: "ref \<Rightarrow> 'w \<Rightarrow> 'e list"
  state_name :: "ref \<Rightarrow> 'w \<Rightarrow> string"
  state_str :: "ref \<Rightarrow> 'w \<Rightarrow> string \<times> (error + string)"
  state_eq_method :: "ref \<Rightarrow> (ref \<Rightarrow> 'w \<Rightarrow> bool) option"
  state_hash_method :: "ref \<Rightarrow> ('w \<Rightarrow> int) option"
  event_eq :: "'e \<Rightarrow> 'e \<Rightarrow> bool"
  event_str :: "'e \<Rightarrow> string"

text \<open>
  \<^verbatim>\<open>a == b\<close> on two state objects. Python calls the \<^verbatim>\<open>__eq__\<close> of the class of \<open>a\<close>. The
  method of \<^verbatim>\<open>object\<close> answers \<^verbatim>\<open>True\<close> for the same object and \<^verbatim>\<open>NotImplemented\<close>
  otherwise; then the \<^verbatim>\<open>__eq__\<close> of the class of \<open>b\<close> is asked, and if that is the method of
  \<^verbatim>\<open>object\<close> too, the answer is the identity of the two objects. A method defined by a
  consumer class is taken to answer \<^verbatim>\<open>True\<close> or \<^verbatim>\<open>False\<close>.
\<close>

definition py_eq :: "('e, 'w) env \<Rightarrow> 'w \<Rightarrow> ref \<Rightarrow> ref \<Rightarrow> bool" where
  "py_eq env w a b =
     (case state_eq_method env a of
        Some eq \<Rightarrow> eq b w
      | None \<Rightarrow>
          if a = b then True
          else (case state_eq_method env b of Some eq' \<Rightarrow> eq' a w | None \<Rightarrow> False))"

text \<open>
  \<^verbatim>\<open>hash(a)\<close> on a state object. A class that defines \<^verbatim>\<open>__eq__\<close> and no \<^verbatim>\<open>__hash__\<close> has its
  \<^verbatim>\<open>__hash__\<close> set to \<^verbatim>\<open>None\<close> by Python: its instances are unhashable, the result \<open>None\<close>
  here, and \<^verbatim>\<open>hash\<close> raises \<^verbatim>\<open>TypeError\<close>. The hash of \<^verbatim>\<open>object\<close> is computed from the
  address of the object.
\<close>

definition py_hash :: "('e, 'w) env \<Rightarrow> 'w \<Rightarrow> ref \<Rightarrow> int option" where
  "py_hash env w a =
     (case state_hash_method env a of
        Some h \<Rightarrow> Some (h w)
      | None \<Rightarrow> (case state_eq_method env a of Some eq \<Rightarrow> None | None \<Rightarrow> Some (int a)))"

text \<open>
  \<^verbatim>\<open>set(iterable)\<close> on state objects: the elements are added one after the other. Adding
  hashes the element (\<^verbatim>\<open>TypeError\<close> if it is unhashable) and drops it if an entry with the
  same hash is the same object or compares equal to it. The list of entries is kept
  in the order of insertion.
\<close>

definition set_add :: "('e, 'w) env \<Rightarrow> 'w \<Rightarrow> ref list \<Rightarrow> ref \<Rightarrow> error + ref list" where
  "set_add env w entries x =
     (case py_hash env w x of
        None \<Rightarrow> Inl (TypeError ''unhashable type'')
      | Some h \<Rightarrow>
          if list_ex (\<lambda>y. py_hash env w y = Some h \<and> (y = x \<or> py_eq env w y x)) entries
          then Inr entries
          else Inr (entries @ [x]))"

fun py_set :: "('e, 'w) env \<Rightarrow> 'w \<Rightarrow> ref list \<Rightarrow> ref list \<Rightarrow> error + ref list" where
  "py_set env w entries [] = Inr entries"
| "py_set env w entries (x # xs) =
     (case set_add env w entries x of
        Inl e \<Rightarrow> Inl e
      | Inr entries' \<Rightarrow> py_set env w entries' xs)"

text \<open>
  Iterating a set visits every entry once, in the order of the hash table, which the
  language leaves open. That order is a parameter \<open>set_iter\<close> of the functions that
  iterate a set: it takes the entries to the sequence of visits, a permutation of them.
\<close>

definition iterates_set :: "(ref list \<Rightarrow> ref list) \<Rightarrow> bool" where
  "iterates_set set_iter \<longleftrightarrow> (\<forall>xs. mset (set_iter xs) = mset xs)"

text \<open>
  The arguments of the constructors and of \<^verbatim>\<open>add\<close> are unchecked Python values. Only what
  the checks of this module look at is kept: whether the value is \<^verbatim>\<open>None\<close>, an instance
  of \<^verbatim>\<open>State\<close> (a reference to a state object), a callable, an instance of
  \<^verbatim>\<open>Transition\<close>, or something else (an integer, a string, any other object).
\<close>

datatype ('e, 'w) pyval =
    PyNone
  | PyInt int
  | PyStr string
  | PyState ref
  | PyObject ref
  | PyCallable "('e, 'w) update_fn"
  | PyTransition "('e, 'w) Transition"

fun is_None :: "('e, 'w) pyval \<Rightarrow> bool" where
  "is_None PyNone = True"
| "is_None _ = False"

fun state_of :: "('e, 'w) pyval \<Rightarrow> ref option" where
  "state_of (PyState r) = Some r"
| "state_of _ = None"

definition isinstance_State :: "('e, 'w) pyval \<Rightarrow> bool" where
  "isinstance_State v = (\<not> Option.is_none (state_of v))"

fun callable :: "('e, 'w) pyval \<Rightarrow> bool" where
  "callable (PyCallable f) = True"
| "callable _ = False"

fun update_of :: "('e, 'w) pyval \<Rightarrow> ('e, 'w) update_fn option" where
  "update_of (PyCallable f) = Some f"
| "update_of _ = None"

section \<open>State\<close>

text \<open>\<^verbatim>\<open>State.__str__\<close> (fsm.py:17-19): prints nothing and returns the name.\<close>

definition State_str :: "(ref \<Rightarrow> 'w \<Rightarrow> string) \<Rightarrow> ref \<Rightarrow> 'w \<Rightarrow> string \<times> (error + string)" where
  "State_str name_of self w = ([], Inr (name_of self w))"

section \<open>Transition\<close>

text \<open>
  \<^verbatim>\<open>Transition.__init__\<close> (fsm.py:34-65): the three checks in the order of the source,
  each raising \<^verbatim>\<open>TypeError\<close>; the event is stored unchecked.
\<close>

definition Transition_init ::
  "('e, 'w) pyval \<Rightarrow> 'e \<Rightarrow> ('e, 'w) pyval \<Rightarrow> ('e, 'w) pyval \<Rightarrow> error + ('e, 'w) Transition" where
  "Transition_init current_state' event' next_state' update' =
     (case state_of current_state' of
        None \<Rightarrow> Inl (TypeError ''current_state'')
      | Some c \<Rightarrow>
          (case state_of next_state' of
             None \<Rightarrow> Inl (TypeError ''next_state'')
           | Some n \<Rightarrow>
               if \<not> is_None update' \<and> \<not> callable update'
               then Inl (TypeError ''update'')
               else Inr \<lparr>current_state = c, event = event', next_state = n,
                         update = update_of update'\<rparr>))"

text \<open>\<^verbatim>\<open>Transition.__str__\<close> (fsm.py:67-70).\<close>

definition Transition_str :: "('e, 'w) env \<Rightarrow> 'w \<Rightarrow> ('e, 'w) Transition \<Rightarrow> string" where
  "Transition_str env w t =
     ''('' @ state_name env (current_state t) w @ '', '' @ event_str env (event t)
       @ '') -> '' @ state_name env (next_state t) w"

text \<open>\<^verbatim>\<open>Transition.apply\<close> (fsm.py:85-89).\<close>

definition apply_transition :: "('e, 'w) Transition \<Rightarrow> 'w \<Rightarrow> (ref \<times> 'w) option" where
  "apply_transition t w =
     (case update t of
        None \<Rightarrow> Some (next_state t, w)
      | Some f \<Rightarrow>
          (case f (current_state t) (event t) (next_state t) w of
             None \<Rightarrow> None
           | Some w' \<Rightarrow> Some (next_state t, w')))"

text \<open>
  \<^verbatim>\<open>Transition.match\<close> (fsm.py:91-96): both comparisons are \<^verbatim>\<open>==\<close>, with the members of
  the transition on the left.
\<close>

definition match :: "('e, 'w) env \<Rightarrow> 'w \<Rightarrow> ('e, 'w) Transition \<Rightarrow> ref \<Rightarrow> 'e \<Rightarrow> bool" where
  "match env w t current_state' event' =
     (if py_eq env w (current_state t) current_state' \<and> event_eq env (event t) event'
      then True else False)"

section \<open>FiniteStateMachine\<close>

text \<open>\<^verbatim>\<open>FiniteStateMachine.__init__\<close> (fsm.py:101-113).\<close>

definition FiniteStateMachine_init :: "string \<Rightarrow> ref \<Rightarrow> ('e, 'w) FiniteStateMachine" where
  "FiniteStateMachine_init name' start_state' =
     \<lparr>name = name', start_state = start_state', transitions = []\<rparr>"

text \<open>\<^verbatim>\<open>FiniteStateMachine.add\<close> (fsm.py:147-154), returning the updated object.\<close>

definition add ::
  "('e, 'w) FiniteStateMachine \<Rightarrow> ('e, 'w) pyval \<Rightarrow> error + ('e, 'w) FiniteStateMachine" where
  "add self transition' =
     (case transition' of
        PyTransition t \<Rightarrow> Inr (self\<lparr>transitions := transitions self @ [t]\<rparr>)
      | _ \<Rightarrow> Inl (TypeError ''transition''))"

text \<open>
  \<^verbatim>\<open>FiniteStateMachine.transition\<close> (fsm.py:170-173): the generator of the matching
  transitions, in list order, and \<^verbatim>\<open>next(matches, None)\<close>.
\<close>

definition transition ::
  "('e, 'w) env \<Rightarrow> 'w \<Rightarrow> ('e, 'w) FiniteStateMachine \<Rightarrow> ref \<Rightarrow> 'e \<Rightarrow>
     ('e, 'w) Transition option" where
  "transition env w self state event' =
     (let matches = filter (\<lambda>t. match env w t state event') (transitions self)
      in case matches of [] \<Rightarrow> None | t # _ \<Rightarrow> Some t)"

text \<open>
  \<^verbatim>\<open>FiniteStateMachine.events\<close> (fsm.py:115-130): the states are put into a set, start
  state first, then the \<^verbatim>\<open>current_state\<close> of every transition, then the \<^verbatim>\<open>next_state\<close> of
  every transition; the set is iterated, and the events of each state without a
  transition are appended.
\<close>

definition events ::
  "(ref list \<Rightarrow> ref list) \<Rightarrow> ('e, 'w) env \<Rightarrow> 'w \<Rightarrow> error + 'e list" where
  "events set_iter env w =
     (let self = self_fsm env w
      in case py_set env w []
                (start_state self # map current_state (transitions self)
                   @ map next_state (transitions self)) of
           Inl e \<Rightarrow> Inl e
         | Inr states \<Rightarrow>
             Inr (concat (map (\<lambda>state.
                     filter (\<lambda>ev. Option.is_none (transition env w self state ev))
                       (state_events env state w)) (set_iter states))))"

text \<open>
  \<^verbatim>\<open>FiniteStateMachine.__str__\<close> (fsm.py:132-145). It builds the text \<^verbatim>\<open>out\<close>, prints it
  (\<^verbatim>\<open>print\<close> appends a newline) and ends without a \<^verbatim>\<open>return\<close>: the method returns
  \<^verbatim>\<open>None\<close>. An exception of \<^verbatim>\<open>str(self.start_state)\<close> or of \<^verbatim>\<open>self.events\<close> leaves the method
  before anything of \<^verbatim>\<open>out\<close> is printed. The result is what was printed, and the returned
  value or the exception.
\<close>

definition newline :: string where
  "newline = [CHR 0x0A]"

record str_result =
  printed :: string
  returned :: "error + string option"

definition FiniteStateMachine_str ::
  "(ref list \<Rightarrow> ref list) \<Rightarrow> ('e, 'w) env \<Rightarrow> 'w \<Rightarrow> str_result" where
  "FiniteStateMachine_str set_iter env w =
     (let self = self_fsm env w;
          out = ''FSM: '' @ name self @ newline
      in case state_str env (start_state self) w of
           (shown, Inl e) \<Rightarrow> \<lparr>printed = shown, returned = Inl e\<rparr>
         | (shown, Inr start) \<Rightarrow>
             (let out = out @ newline @ ''  Start state: '' @ start @ newline;
                  out = out @ newline @ ''  Transitions:'' @ newline;
                  out = foldl (\<lambda>out t. out @ ''    '' @ Transition_str env w t @ newline) out
                          (transitions self);
                  out = out @ newline @ ''  Events:'' @ newline
              in case events set_iter env w of
                   Inl e \<Rightarrow> \<lparr>printed = shown, returned = Inl e\<rparr>
                 | Inr evs \<Rightarrow>
                     (let out = foldl (\<lambda>out ev. out @ ''    '' @ event_str env ev @ newline)
                                  out evs
                      in \<lparr>printed = shown @ out @ newline, returned = Inr None\<rparr>)))"

text \<open>
  \<^verbatim>\<open>str(machine)\<close>: the built-in calls \<^verbatim>\<open>__str__\<close> and raises \<^verbatim>\<open>TypeError\<close> when the value
  it gets back is not a string. This is the \<open>state_str\<close> of a machine that is used as a
  state of another machine.
\<close>

definition str_of_machine ::
  "(ref list \<Rightarrow> ref list) \<Rightarrow> ('e, 'w) env \<Rightarrow> 'w \<Rightarrow> string \<times> (error + string)" where
  "str_of_machine set_iter env w =
     (let r = FiniteStateMachine_str set_iter env w
      in (printed r,
          case returned r of
            Inl e \<Rightarrow> Inl e
          | Inr None \<Rightarrow> Inl (TypeError ''__str__ returned non-string (type NoneType)'')
          | Inr (Some s) \<Rightarrow> Inr s))"

text \<open>
  \<^verbatim>\<open>FiniteStateMachine.run\<close> (fsm.py:156-168). The \<^verbatim>\<open>while True\<close> loop has no bound, so
  it is a partial function: \<open>None\<close> is a run that does not return, because the loop goes
  on forever or because a callback does not return. The fields of \<^verbatim>\<open>self\<close> are read
  from the store where the source reads them: \<^verbatim>\<open>start_state\<close> once before the loop, the
  transitions at every lookup.
\<close>

partial_function (option) run_loop ::
  "('e, 'w) env \<Rightarrow> ref \<Rightarrow> 'w \<Rightarrow> ('e \<times> 'w) option" where
  "run_loop env cur w =
     (case state_run env cur w of
        None \<Rightarrow> None
      | Some (ev, w1) \<Rightarrow>
          (case transition env w1 (self_fsm env w1) cur ev of
             None \<Rightarrow> Some (ev, w1)
           | Some t \<Rightarrow>
               (case apply_transition t w1 of
                  None \<Rightarrow> None
                | Some (nxt, w2) \<Rightarrow> run_loop env nxt w2)))"

definition run :: "('e, 'w) env \<Rightarrow> 'w \<Rightarrow> ('e \<times> 'w) option" where
  "run env w = run_loop env (start_state (self_fsm env w)) w"

section \<open>The iteration and the event set as the specification words them\<close>

text \<open>
  One round of the specified iteration that does not stop: run the current state, find a
  transition for the event, apply it (its update changes the store), and its
  \<^verbatim>\<open>next_state\<close> becomes the current state. \<open>run_steps env n\<close> is the configuration
  reached after \<open>n\<close> such rounds, if all of them found a transition.
\<close>

fun run_steps :: "('e, 'w) env \<Rightarrow> nat \<Rightarrow> ref \<Rightarrow> 'w \<Rightarrow> (ref \<times> 'w) option" where
  "run_steps env 0 cur w = Some (cur, w)"
| "run_steps env (Suc n) cur w =
     (case state_run env cur w of
        None \<Rightarrow> None
      | Some (ev, w1) \<Rightarrow>
          (case find (\<lambda>t. match env w1 t cur ev) (transitions (self_fsm env w1)) of
             None \<Rightarrow> None
           | Some t \<Rightarrow>
               (case update t of
                  None \<Rightarrow> run_steps env n (next_state t) w1
                | Some f \<Rightarrow>
                    (case f (current_state t) (event t) (next_state t) w1 of
                       None \<Rightarrow> None
                     | Some w2 \<Rightarrow> run_steps env n (next_state t) w2))))"

text \<open>The round that stops: the current state yields an event that no transition matches.\<close>

definition stops_with :: "('e, 'w) env \<Rightarrow> ref \<Rightarrow> 'w \<Rightarrow> 'e \<Rightarrow> 'w \<Rightarrow> bool" where
  "stops_with env cur w ev w' \<longleftrightarrow>
     state_run env cur w = Some (ev, w') \<and>
     (\<forall>t \<in> set (transitions (self_fsm env w')). \<not> match env w' t cur ev)"

text \<open>
  The states of a machine in the specification's words: the start state and every
  \<^verbatim>\<open>current_state\<close> and \<^verbatim>\<open>next_state\<close> of a transition, as a set of objects; and the events
  of one state that no transition consumes.
\<close>

definition machine_states :: "('e, 'w) FiniteStateMachine \<Rightarrow> ref set" where
  "machine_states self =
     insert (start_state self)
       (current_state ` set (transitions self) \<union> next_state ` set (transitions self))"

definition unconsumed :: "('e, 'w) env \<Rightarrow> 'w \<Rightarrow> ref \<Rightarrow> 'e list" where
  "unconsumed env w state =
     filter (\<lambda>ev. transition env w (self_fsm env w) state ev = None)
       (state_events env state w)"

section \<open>The states of the test suite\<close>

text \<open>
  \<^verbatim>\<open>tests/test_fsm.py\<close>:6-63. The attributes \<^verbatim>\<open>value\<close> and \<^verbatim>\<open>limit\<close> of the state
  objects are kept in the store, one map per attribute, from object to value. The four
  classes define neither \<^verbatim>\<open>__eq__\<close> nor \<^verbatim>\<open>__hash__\<close> nor \<^verbatim>\<open>__str__\<close>, and their events are
  strings.
\<close>

record store =
  value_attr :: "ref \<Rightarrow> int"
  limit_attr :: "ref \<Rightarrow> int"

datatype test_class = EndState | StartState | CountingState | LimitingState

definition counting :: ref where "counting = 0"
definition limiting :: ref where "limiting = 1"
definition starting :: ref where "starting = 2"
definition ending :: ref where "ending = 3"

definition class_of :: "ref \<Rightarrow> test_class option" where
  "class_of r =
     (if r = counting then Some CountingState
      else if r = limiting then Some LimitingState
      else if r = starting then Some StartState
      else if r = ending then Some EndState
      else None)"

definition CountingState_run :: "ref \<Rightarrow> store \<Rightarrow> (string \<times> store) option" where
  "CountingState_run self w =
     Some (''counted'', w\<lparr>value_attr := (value_attr w)(self := value_attr w self + 1)\<rparr>)"

definition LimitingState_run :: "ref \<Rightarrow> store \<Rightarrow> (string \<times> store) option" where
  "LimitingState_run self w =
     (if value_attr w self > limit_attr w self then Some (''over'', w) else Some (''under'', w))"

definition test_run :: "ref \<Rightarrow> store \<Rightarrow> (string \<times> store) option" where
  "test_run r w =
     (case class_of r of
        None \<Rightarrow> None
      | Some EndState \<Rightarrow> Some (''ended'', w)
      | Some StartState \<Rightarrow> Some (''started'', w)
      | Some CountingState \<Rightarrow> CountingState_run r w
      | Some LimitingState \<Rightarrow> LimitingState_run r w)"

definition test_events :: "ref \<Rightarrow> store \<Rightarrow> string list" where
  "test_events r w =
     (case class_of r of
        None \<Rightarrow> []
      | Some EndState \<Rightarrow> [''ended'']
      | Some StartState \<Rightarrow> [''started'']
      | Some CountingState \<Rightarrow> [''counted'']
      | Some LimitingState \<Rightarrow> [''over'', ''under''])"

definition test_name :: "ref \<Rightarrow> store \<Rightarrow> string" where
  "test_name r w =
     (case class_of r of
        None \<Rightarrow> []
      | Some EndState \<Rightarrow> ''Ending''
      | Some StartState \<Rightarrow> ''Starting''
      | Some CountingState \<Rightarrow> ''Counting''
      | Some LimitingState \<Rightarrow> ''Limiting'')"

definition test_env :: "(string, store) FiniteStateMachine \<Rightarrow> (string, store) env" where
  "test_env machine =
     \<lparr>self_fsm = (\<lambda>w. machine), state_run = test_run, state_events = test_events,
      state_name = test_name, state_str = State_str test_name,
      state_eq_method = (\<lambda>r. None), state_hash_method = (\<lambda>r. None),
      event_eq = (\<lambda>a b. a = b), event_str = (\<lambda>ev. ev)\<rparr>"

text \<open>\<^verbatim>\<open>test_counting_fsm\<close> (test_fsm.py:123-144): the update function, the store at the
  start (\<^verbatim>\<open>counting.value = 0\<close>, \<^verbatim>\<open>LimitingState(counting.value, 10)\<close>) and the machine.\<close>

definition copy_value :: "(string, store) update_fn" where
  "copy_value counting' event' limiting' w =
     Some (w\<lparr>value_attr := (value_attr w)(limiting' := value_attr w counting')\<rparr>)"

definition store0 :: store where
  "store0 = \<lparr>value_attr = (\<lambda>r. 0), limit_attr = (\<lambda>r. 0)(limiting := 10)\<rparr>"

definition counting_fsm :: "(string, store) FiniteStateMachine" where
  "counting_fsm =
     \<lparr>name = ''Counting to 10'', start_state = counting,
      transitions =
        [\<lparr>current_state = counting, event = ''counted'', next_state = limiting,
          update = Some copy_value\<rparr>,
         \<lparr>current_state = limiting, event = ''under'', next_state = counting,
          update = None\<rparr>]\<rparr>"

text \<open>\<^verbatim>\<open>test_events\<close> (test_fsm.py:108-117): a machine without transitions.\<close>

definition start_machine :: "(string, store) FiniteStateMachine" where
  "start_machine = FiniteStateMachine_init ''Start machine'' starting"

text \<open>
  A machine whose start state is the machine of \<^verbatim>\<open>test_events\<close>, used as a state: its
  \<^verbatim>\<open>run\<close>, \<^verbatim>\<open>events\<close> and \<^verbatim>\<open>str\<close> are those of the inner machine.
\<close>

definition inner :: ref where "inner = 8"

definition outer_machine :: "(string, store) FiniteStateMachine" where
  "outer_machine = FiniteStateMachine_init ''Outer'' inner"

definition nested_env :: "(string, store) env" where
  "nested_env =
     (test_env outer_machine)
       \<lparr>state_run := (\<lambda>r w. if r = inner then run (test_env start_machine) w else test_run r w),
        state_events := (\<lambda>r w. if r = inner
                          then (case events id (test_env start_machine) w of
                                  Inl e \<Rightarrow> [] | Inr evs \<Rightarrow> evs)
                          else test_events r w),
        state_name := (\<lambda>r w. if r = inner then name start_machine else test_name r w),
        state_str := (\<lambda>r w. if r = inner then str_of_machine id (test_env start_machine) w
                               else State_str test_name r w)\<rparr>"

section \<open>States of a class that compares by value\<close>

text \<open>
  Input of the kind a consumer may write, a subclass of \<^verbatim>\<open>State\<close> that compares and
  hashes by name:
  \<^verbatim>\<open>def __eq__(self, other): return self.name == other.name\<close> and
  \<^verbatim>\<open>def __hash__(self): return hash(self.name)\<close>.
  Two instances have the same name; the first declares and yields the event
  \<^verbatim>\<open>'left'\<close>, the second \<^verbatim>\<open>'right'\<close>. The hash of a name is some function of the name.
\<close>

definition twin_a :: ref where "twin_a = 4"
definition twin_b :: ref where "twin_b = 5"

definition twin_name :: "ref \<Rightarrow> unit \<Rightarrow> string" where
  "twin_name r w = ''Twin''"

definition twin_env :: "(string, unit) FiniteStateMachine \<Rightarrow> (string, unit) env" where
  "twin_env machine =
     \<lparr>self_fsm = (\<lambda>w. machine),
      state_run = (\<lambda>r w. Some (if r = twin_a then ''left'' else ''right'', w)),
      state_events = (\<lambda>r w. if r = twin_a then [''left''] else [''right'']),
      state_name = twin_name, state_str = State_str twin_name,
      state_eq_method = (\<lambda>r. Some (\<lambda>other w. twin_name r w = twin_name other w)),
      state_hash_method = (\<lambda>r. Some (\<lambda>w. int (length (twin_name r w)))),
      event_eq = (\<lambda>a b. a = b), event_str = (\<lambda>ev. ev)\<rparr>"

definition twin_transition :: "(string, unit) Transition" where
  "twin_transition =
     \<lparr>current_state = twin_a, event = ''left'', next_state = twin_b, update = None\<rparr>"

definition twin_machine :: "(string, unit) FiniteStateMachine" where
  "twin_machine = \<lparr>name = ''Twins'', start_state = twin_a, transitions = [twin_transition]\<rparr>"

text \<open>The same class without the \<^verbatim>\<open>__hash__\<close> method, and a machine without transitions.\<close>

definition unhashable_env :: "(string, unit) FiniteStateMachine \<Rightarrow> (string, unit) env" where
  "unhashable_env machine = (twin_env machine)\<lparr>state_hash_method := (\<lambda>r. None)\<rparr>"

definition lonely_machine :: "(string, unit) FiniteStateMachine" where
  "lonely_machine = FiniteStateMachine_init ''Lonely'' twin_a"

section \<open>A machine whose fields are read from the store\<close>

text \<open>
  The store holds the transitions of the machine, as tuples of source, event, destination
  and whether the transition has the update function \<open>bump\<close>, and a counter of visits.
  There are two states, \<open>first\<close> (the start state) and \<open>second\<close>, of classes that
  define no \<^verbatim>\<open>__eq__\<close>.
  In \<open>grow_env\<close> the \<^verbatim>\<open>run\<close> of \<open>first\<close> calls
  \<^verbatim>\<open>machine.add(Transition(self, 'go', second))\<close> and returns \<^verbatim>\<open>'go'\<close>.
  In \<open>steady_env\<close> it counts the visit and returns \<^verbatim>\<open>'go'\<close>.
  The \<^verbatim>\<open>run\<close> of \<open>second\<close> returns \<^verbatim>\<open>'ended'\<close>.
\<close>

record mstore =
  edges :: "(ref \<times> string \<times> ref \<times> bool) list"
  visits :: nat

definition first :: ref where "first = 6"
definition second :: ref where "second = 7"

definition bump :: "(string, mstore) update_fn" where
  "bump current_state' event' next_state' w = Some (w\<lparr>visits := visits w + 10\<rparr>)"

definition stored_machine :: "mstore \<Rightarrow> (string, mstore) FiniteStateMachine" where
  "stored_machine w =
     \<lparr>name = ''Stored'', start_state = first,
      transitions =
        map (\<lambda>(c, e, n, u). \<lparr>current_state = c, event = e, next_state = n,
                              update = (if u then Some bump else None)\<rparr>) (edges w)\<rparr>"

definition stored_name :: "ref \<Rightarrow> mstore \<Rightarrow> string" where
  "stored_name r w = (if r = first then ''First'' else ''Second'')"

definition stored_env ::
  "(ref \<Rightarrow> mstore \<Rightarrow> (string \<times> mstore) option) \<Rightarrow> (string, mstore) env" where
  "stored_env run_of =
     \<lparr>self_fsm = stored_machine, state_run = run_of,
      state_events = (\<lambda>r w. if r = first then [''go''] else [''ended'']),
      state_name = stored_name, state_str = State_str stored_name,
      state_eq_method = (\<lambda>r. None), state_hash_method = (\<lambda>r. None),
      event_eq = (\<lambda>a b. a = b), event_str = (\<lambda>ev. ev)\<rparr>"

definition grow_run :: "ref \<Rightarrow> mstore \<Rightarrow> (string \<times> mstore) option" where
  "grow_run r w =
     (if r = first then Some (''go'', w\<lparr>edges := edges w @ [(first, ''go'', second, False)]\<rparr>)
      else Some (''ended'', w))"

definition steady_run :: "ref \<Rightarrow> mstore \<Rightarrow> (string \<times> mstore) option" where
  "steady_run r w =
     (if r = first then Some (''go'', w\<lparr>visits := visits w + 1\<rparr>) else Some (''ended'', w))"

definition grow_env :: "(string, mstore) env" where
  "grow_env = stored_env grow_run"

definition steady_env :: "(string, mstore) env" where
  "steady_env = stored_env steady_run"

section \<open>Evaluation of the examples\<close>

lemmas test_defs = test_env_def counting_fsm_def test_run_def class_of_def counting_def
  limiting_def CountingState_run_def LimitingState_run_def copy_value_def store0_def
  test_events_def test_name_def starting_def ending_def start_machine_def
  FiniteStateMachine_init_def State_str_def

lemmas engine_defs = transition_def match_def py_eq_def py_hash_def set_add_def
  apply_transition_def

lemmas twin_defs = twin_env_def twin_a_def twin_b_def twin_name_def twin_transition_def
  twin_machine_def unhashable_env_def lonely_machine_def FiniteStateMachine_init_def
  State_str_def

lemmas stored_defs = stored_env_def grow_env_def steady_env_def grow_run_def steady_run_def
  stored_machine_def stored_name_def first_def second_def bump_def State_str_def

section \<open>Lookup and run loop: basic facts\<close>

lemma first_of_filter:
  "(case filter P xs of [] \<Rightarrow> None | t # ts \<Rightarrow> Some t) = find P xs"
  by (induction xs) simp_all

lemma transition_find:
  "transition env w self state ev = find (\<lambda>t. match env w t state ev) (transitions self)"
  by (simp add: transition_def first_of_filter)

lemma transition_None:
  "transition env w self state ev = None \<longleftrightarrow>
     (\<forall>t \<in> set (transitions self). \<not> match env w t state ev)"
  by (auto simp: transition_find find_None_iff)

lemma run_loop_stop:
  "stops_with env cur w ev w' \<Longrightarrow> run_loop env cur w = Some (ev, w')"
proof -
  assume "stops_with env cur w ev w'"
  then have "state_run env cur w = Some (ev, w')"
    "transition env w' (self_fsm env w') cur ev = None"
    by (simp_all add: stops_with_def transition_None)
  then show ?thesis by (subst run_loop.simps) simp
qed

lemma run_loop_complete:
  "run_steps env n cur w = Some (s, wn) \<Longrightarrow> stops_with env s wn ev w' \<Longrightarrow>
   run_loop env cur w = Some (ev, w')"
proof (induction n arbitrary: cur w)
  case 0
  then show ?case by (simp add: run_loop_stop)
next
  case (Suc n)
  from Suc.prems(1) obtain e w1 t where
    r: "state_run env cur w = Some (e, w1)" and
    t: "transition env w1 (self_fsm env w1) cur e = Some t"
    by (auto simp: transition_find split: option.splits prod.splits)
  from Suc.prems(1) r t obtain w2 where
    a: "apply_transition t w1 = Some (next_state t, w2)" and
    k: "run_steps env n (next_state t) w2 = Some (s, wn)"
    by (auto simp: transition_find apply_transition_def split: option.splits)
  from Suc.IH[OF k Suc.prems(2)] r t a show ?case
    by (subst run_loop.simps) simp
qed

lemma run_loop_sound:
  "run_loop env cur w = Some (ev, w') \<Longrightarrow>
   \<exists>n s wn. run_steps env n cur w = Some (s, wn) \<and> stops_with env s wn ev w'"
proof (induction env cur w "(ev, w')" rule: run_loop.raw_induct[rotated 1, consumes 1])
  case (1 loop env cur w)
  show ?case
  proof (cases "state_run env cur w")
    case None
    with "1.hyps"(2) show ?thesis by simp
  next
    case (Some p)
    obtain e w1 where p: "p = (e, w1)" by (cases p)
    show ?thesis
    proof (cases "transition env w1 (self_fsm env w1) cur e")
      case None
      with Some p "1.hyps"(2)
      have "run_steps env 0 cur w = Some (cur, w) \<and> stops_with env cur w ev w'"
        by (simp add: stops_with_def transition_None)
      then show ?thesis by blast
    next
      case t: (Some t)
      show ?thesis
      proof (cases "apply_transition t w1")
        case None
        with Some p t "1.hyps"(2) show ?thesis by simp
      next
        case a: (Some q)
        obtain nxt w2 where q: "q = (nxt, w2)" by (cases q)
        from a q have nxt: "nxt = next_state t"
          by (auto simp: apply_transition_def split: option.splits)
        from Some p t a q "1.hyps"(2) have "loop env nxt w2 = Some (ev, w')" by simp
        from "1.hyps"(1)[OF this] obtain n s wn where
          k: "run_steps env n nxt w2 = Some (s, wn)" and st: "stops_with env s wn ev w'"
          by blast
        from Some p t a q nxt k have "run_steps env (Suc n) cur w = Some (s, wn)"
          by (auto simp: transition_find apply_transition_def split: option.splits)
        with st show ?thesis by blast
      qed
    qed
  qed
qed

lemma run_steps_earlier:
  "run_steps env n cur w = Some (s, wn) \<Longrightarrow> k < n \<Longrightarrow>
   \<exists>ck wk ek wk' t. run_steps env k cur w = Some (ck, wk) \<and>
      state_run env ck wk = Some (ek, wk') \<and>
      transition env wk' (self_fsm env wk') ck ek = Some t"
proof (induction n arbitrary: cur w k)
  case 0
  then show ?case by simp
next
  case (Suc n)
  from Suc.prems(1) obtain e w1 t where
    r: "state_run env cur w = Some (e, w1)" and
    t: "transition env w1 (self_fsm env w1) cur e = Some t"
    by (auto simp: transition_find split: option.splits prod.splits)
  show ?case
  proof (cases k)
    case 0
    with r t show ?thesis by simp
  next
    case (Suc k')
    from Suc.prems(1) r t obtain w2 where
      st: "run_steps env n (next_state t) w2 = Some (s, wn)" and
      one: "\<And>m. run_steps env (Suc m) cur w = run_steps env m (next_state t) w2"
      by (auto simp: transition_find split: option.splits)
    from Suc.prems(2) Suc have "k' < n" by simp
    from Suc.IH[OF st this] one Suc show ?thesis by simp
  qed
qed

lemma counting_run:
  "run (test_env counting_fsm) store0 =
     Some (''over'', \<lparr>value_attr = (\<lambda>r. 0)(counting := 11, limiting := 11),
                      limit_attr = (\<lambda>r. 0)(limiting := 10)\<rparr>)"
  by (simp add: run_def run_loop.simps engine_defs test_defs)

section \<open>The run loop\<close>

text \<open>
  Claim C1. \<^verbatim>\<open>run()\<close> starts in \<^verbatim>\<open>start_state\<close> and repeats: run the current state, look
  the event up, stop with that event if no transition matches, otherwise apply the
  transition and continue in its \<^verbatim>\<open>next_state\<close>. So \<^verbatim>\<open>run()\<close> returns \<open>ev\<close> (leaving the store
  \<open>w'\<close>) exactly when some number \<open>n\<close> of rounds of the specified iteration, each of which
  found a transition, lead to a state whose event \<open>ev\<close> no transition matches; and every
  round before that one produced an event that a transition did match, so \<open>ev\<close> is the
  first unmatched event.
\<close>

theorem run_returns_first_unmatched_event:
  "(run env w = Some (ev, w') \<longleftrightarrow>
      (\<exists>n cur wn. run_steps env n (start_state (self_fsm env w)) w = Some (cur, wn) \<and>
                  stops_with env cur wn ev w')) \<and>
   (\<forall>n cur wn k. run_steps env n (start_state (self_fsm env w)) w = Some (cur, wn) \<and> k < n \<longrightarrow>
      (\<exists>ck wk ek wk' t.
          run_steps env k (start_state (self_fsm env w)) w = Some (ck, wk) \<and>
          state_run env ck wk = Some (ek, wk') \<and>
          transition env wk' (self_fsm env wk') ck ek = Some t))"
proof (intro conjI iffI allI impI)
  assume "run env w = Some (ev, w')"
  then show "\<exists>n cur wn. run_steps env n (start_state (self_fsm env w)) w = Some (cur, wn) \<and>
                  stops_with env cur wn ev w'"
    unfolding run_def by (rule run_loop_sound)
next
  assume "\<exists>n cur wn. run_steps env n (start_state (self_fsm env w)) w = Some (cur, wn) \<and>
                  stops_with env cur wn ev w'"
  then show "run env w = Some (ev, w')"
    unfolding run_def by (blast intro: run_loop_complete)
next
  fix n cur wn k
  assume "run_steps env n (start_state (self_fsm env w)) w = Some (cur, wn) \<and> k < n"
  then show "\<exists>ck wk ek wk' t.
          run_steps env k (start_state (self_fsm env w)) w = Some (ck, wk) \<and>
          state_run env ck wk = Some (ek, wk') \<and>
          transition env wk' (self_fsm env wk') ck ek = Some t"
    by (blast dest: run_steps_earlier)
qed

theorem run_returns_first_unmatched_event_witness:
  "\<exists>n cur wn. run_steps (test_env counting_fsm) n counting store0 = Some (cur, wn) \<and>
      stops_with (test_env counting_fsm) cur wn ''over''
        \<lparr>value_attr = (\<lambda>r. 0)(counting := 11, limiting := 11),
         limit_attr = (\<lambda>r. 0)(limiting := 10)\<rparr>"
  using run_returns_first_unmatched_event
          [of "test_env counting_fsm" store0 "''over''"
              "\<lparr>value_attr = (\<lambda>r. 0)(counting := 11, limiting := 11),
                limit_attr = (\<lambda>r. 0)(limiting := 10)\<rparr>"]
        counting_run
  by (simp add: test_env_def counting_fsm_def)

section \<open>Sets of states\<close>

lemma py_eq_inherited:
  "state_eq_method env a = None \<Longrightarrow> state_eq_method env b = None \<Longrightarrow>
   py_eq env w a b \<longleftrightarrow> a = b"
  by (simp add: py_eq_def)

lemma py_hash_inherited:
  "state_eq_method env a = None \<Longrightarrow> py_hash env w a \<noteq> None"
  by (simp add: py_hash_def split: option.splits)

lemma set_add_unhashable:
  "py_hash env w x = None \<Longrightarrow> isl (set_add env w entries x)"
  by (simp add: set_add_def)

lemma set_add_hashable:
  assumes "py_hash env w x \<noteq> None"
  shows "set_add env w entries x = Inr entries \<and>
           (\<exists>y \<in> set entries. py_hash env w y = py_hash env w x \<and> (y = x \<or> py_eq env w y x))
         \<or> set_add env w entries x = Inr (entries @ [x]) \<and>
           \<not> (\<exists>y \<in> set entries. py_hash env w y = py_hash env w x \<and> (y = x \<or> py_eq env w y x))"
proof -
  from assms obtain h where h: "py_hash env w x = Some h" by blast
  then show ?thesis by (auto simp: set_add_def list_ex_iff)
qed


lemma py_set_hashable:
  "\<forall>x \<in> set xs. py_hash env w x \<noteq> None \<Longrightarrow> distinct entries \<Longrightarrow>
   \<exists>ys. py_set env w entries xs = Inr ys \<and> distinct ys \<and>
        set entries \<subseteq> set ys \<and> set ys \<subseteq> set entries \<union> set xs \<and>
        (\<forall>x \<in> set xs. \<exists>y \<in> set ys.
            py_hash env w y = py_hash env w x \<and> (y = x \<or> py_eq env w y x))"
proof (induction xs arbitrary: entries)
  case Nil
  then show ?case by simp
next
  case (Cons x xs)
  from Cons.prems(1) have hx: "py_hash env w x \<noteq> None" by simp
  from Cons.prems(1) have hxs: "\<forall>x \<in> set xs. py_hash env w x \<noteq> None" by simp
  from set_add_hashable[OF hx, of entries]
  obtain entries' where
    add: "set_add env w entries x = Inr entries'" and
    d: "distinct entries'" and
    sub: "set entries \<subseteq> set entries'" "set entries' \<subseteq> insert x (set entries)" and
    rep: "\<exists>y \<in> set entries'. py_hash env w y = py_hash env w x \<and> (y = x \<or> py_eq env w y x)"
    using Cons.prems(2) by (elim disjE conjE) auto
  from Cons.IH[OF hxs d] obtain ys where
    ys: "py_set env w entries' xs = Inr ys" "distinct ys" "set entries' \<subseteq> set ys"
        "set ys \<subseteq> set entries' \<union> set xs"
        "\<forall>x \<in> set xs. \<exists>y \<in> set ys.
            py_hash env w y = py_hash env w x \<and> (y = x \<or> py_eq env w y x)"
    by blast
  from add ys(1) have "py_set env w entries (x # xs) = Inr ys" by simp
  moreover from sub ys(3) have "set entries \<subseteq> set ys" by blast
  moreover from sub ys(4) have "set ys \<subseteq> set entries \<union> set (x # xs)" by auto
  moreover from rep ys(3,5) have "\<forall>x' \<in> set (x # xs). \<exists>y \<in> set ys.
            py_hash env w y = py_hash env w x' \<and> (y = x' \<or> py_eq env w y x')"
    by auto
  ultimately show ?case using ys(2) by blast
qed


lemma py_set_inherited:
  assumes "\<forall>x \<in> set xs. state_eq_method env x = None"
  shows "\<exists>ys. py_set env w [] xs = Inr ys \<and> distinct ys \<and> set ys = set xs"
proof -
  from assms have "\<forall>x \<in> set xs. py_hash env w x \<noteq> None"
    by (simp add: py_hash_inherited)
  from py_set_hashable[OF this, of "[]"] obtain ys where
    ys: "py_set env w [] xs = Inr ys" "distinct ys" "set ys \<subseteq> set xs"
        "\<forall>x \<in> set xs. \<exists>y \<in> set ys.
            py_hash env w y = py_hash env w x \<and> (y = x \<or> py_eq env w y x)"
    by auto
  have "set xs \<subseteq> set ys"
  proof
    fix x assume x: "x \<in> set xs"
    with ys(4) obtain y where y: "y \<in> set ys" "y = x \<or> py_eq env w y x" by blast
    from y(1) ys(3) have "y \<in> set xs" by blast
    with assms x have "state_eq_method env y = None" "state_eq_method env x = None" by simp_all
    with y(2) have "y = x" by (simp add: py_eq_inherited)
    with y(1) show "x \<in> set ys" by simp
  qed
  with ys show ?thesis by blast
qed

lemma iterates_set_permutes:
  "iterates_set set_iter \<Longrightarrow> distinct ys \<Longrightarrow>
   distinct (set_iter ys) \<and> set (set_iter ys) = set ys"
  by (metis iterates_set_def mset_eq_setD mset_eq_imp_distinct_iff)

lemma iterates_set_id: "iterates_set id"
  by (simp add: iterates_set_def)

lemma iterates_set_rev: "iterates_set rev"
  by (simp add: iterates_set_def)

section \<open>The derived events\<close>

lemma is_none_eq: "Option.is_none x \<longleftrightarrow> x = None"
  by (cases x) simp_all

lemma set_inserted_states:
  "set (start_state self # map current_state (transitions self) @ map next_state (transitions self))
     = machine_states self"
  by (simp add: machine_states_def)

lemma events_unconsumed:
  "events set_iter env w =
     (case py_set env w []
             (start_state (self_fsm env w) # map current_state (transitions (self_fsm env w))
                @ map next_state (transitions (self_fsm env w))) of
        Inl e \<Rightarrow> Inl e
      | Inr states \<Rightarrow> Inr (concat (map (unconsumed env w) (set_iter states))))"
proof -
  have "unconsumed env w =
          (\<lambda>state. filter (\<lambda>ev. Option.is_none (transition env w (self_fsm env w) state ev))
                     (state_events env state w))"
    by (rule ext) (simp add: unconsumed_def is_none_eq)
  then show ?thesis by (simp add: events_def Let_def split: sum.splits)
qed



lemma events_enumeration:
  assumes "iterates_set set_iter"
    and "\<forall>s \<in> machine_states (self_fsm env w). state_eq_method env s = None"
  shows "\<exists>states. distinct states \<and> set states = machine_states (self_fsm env w) \<and>
           events set_iter env w = Inr (concat (map (unconsumed env w) states))"
proof -
  let ?ins = "start_state (self_fsm env w) # map current_state (transitions (self_fsm env w))
                @ map next_state (transitions (self_fsm env w))"
  have ins: "set ?ins = machine_states (self_fsm env w)" by (rule set_inserted_states)
  with assms(2) have "\<forall>x \<in> set ?ins. state_eq_method env x = None" by simp
  from py_set_inherited[OF this] obtain ys where
    ys: "py_set env w [] ?ins = Inr ys" "distinct ys" "set ys = set ?ins" by blast
  from iterates_set_permutes[OF assms(1) ys(2)]
  have p: "distinct (set_iter ys)" "set (set_iter ys) = set ys" by simp_all
  from ys(1) have "events set_iter env w = Inr (concat (map (unconsumed env w) (set_iter ys)))"
    by (simp add: events_unconsumed)
  with p ys(3) ins show ?thesis by metis
qed


lemma distinct_pair:
  "distinct xs \<Longrightarrow> set xs = {a, b} \<Longrightarrow> a \<noteq> b \<Longrightarrow> xs = [a, b] \<or> xs = [b, a]"
proof -
  assume d: "distinct xs" and s: "set xs = {a, b}" and n: "a \<noteq> b"
  from d s n have "length xs = 2" using distinct_card[of xs] by simp
  then obtain x y where "xs = [x, y]"
    by (auto simp: length_Suc_conv numeral_2_eq_2)
  with s show ?thesis by (auto simp: doubleton_eq_iff)
qed


lemma mset_concat_map:
  "mset xs = mset ys \<Longrightarrow> mset (concat (map f xs)) = mset (concat (map f ys))"
proof -
  assume "mset xs = mset ys"
  then have "image_mset (\<lambda>x. mset (f x)) (mset xs) = image_mset (\<lambda>x. mset (f x)) (mset ys)"
    by simp
  then have "sum_mset (mset (map (\<lambda>x. mset (f x)) xs)) = sum_mset (mset (map (\<lambda>x. mset (f x)) ys))"
    by simp
  then show ?thesis
    by (simp add: mset_concat sum_mset_sum_list comp_def del: mset_map)
qed




text \<open>
  Claim C9. Two reads of \<^verbatim>\<open>events\<close> with nothing added in between, so in the same store,
  give the same multiset of tokens; each read recomputes the result and iterates a set of
  its own, whose order of iteration may differ. (If one read raises, the other raises the
  same exception.)
\<close>

theorem events_twice_equal_multisets:
  assumes "iterates_set set_iter1" and "iterates_set set_iter2"
  shows "(\<forall>evs1. events set_iter1 env w = Inr evs1 \<longrightarrow>
            (\<exists>evs2. events set_iter2 env w = Inr evs2 \<and> mset evs1 = mset evs2)) \<and>
         (\<forall>e. events set_iter1 env w = Inl e \<longrightarrow> events set_iter2 env w = Inl e)"
proof (cases "py_set env w []
             (start_state (self_fsm env w) # map current_state (transitions (self_fsm env w))
                @ map next_state (transitions (self_fsm env w)))")
  case (Inl e)
  then show ?thesis by (simp add: events_unconsumed)
next
  case (Inr ys)
  from assms have "mset (set_iter1 ys) = mset (set_iter2 ys)"
    by (simp add: iterates_set_def)
  then have "mset (concat (map (unconsumed env w) (set_iter1 ys))) =
             mset (concat (map (unconsumed env w) (set_iter2 ys)))"
    by (rule mset_concat_map)
  with Inr show ?thesis by (simp add: events_unconsumed)
qed

theorem events_twice_equal_multisets_witness:
  "iterates_set id \<and> iterates_set rev \<and>
   events id
      (test_env \<lparr>name = ''Two ends'', start_state = starting,
                 transitions = [\<lparr>current_state = ending, event = ''again'',
                                 next_state = starting, update = None\<rparr>]\<rparr>) store0
     = Inr [''started'', ''ended''] \<and>
   events rev
      (test_env \<lparr>name = ''Two ends'', start_state = starting,
                 transitions = [\<lparr>current_state = ending, event = ''again'',
                                 next_state = starting, update = None\<rparr>]\<rparr>) store0
     = Inr [''ended'', ''started''] \<and>
   mset [''started'', ''ended''] = mset [''ended'', ''started'']"
  using events_twice_equal_multisets[OF iterates_set_id iterates_set_rev,
          of "test_env \<lparr>name = ''Two ends'', start_state = starting,
                      transitions = [\<lparr>current_state = ending, event = ''again'',
                                      next_state = starting, update = None\<rparr>]\<rparr>" store0]
  by (simp add: iterates_set_id iterates_set_rev events_def engine_defs test_defs)

section \<open>The counting machine of the test suite\<close>

lemma counting_fsm_constructed:
  "\<exists>t1 t2 m1.
     Transition_init (PyState counting) ''counted'' (PyState limiting) (PyCallable copy_value)
       = Inr t1 \<and>
     Transition_init (PyState limiting) ''under'' (PyState counting) PyNone = Inr t2 \<and>
     add (FiniteStateMachine_init ''Counting to 10'' counting) (PyTransition t1) = Inr m1 \<and>
     add m1 (PyTransition t2) = Inr counting_fsm"
  by (simp add: Transition_init_def add_def FiniteStateMachine_init_def counting_fsm_def)

lemma counting_unconsumed:
  "unconsumed (test_env counting_fsm) store0 counting = []"
  "unconsumed (test_env counting_fsm) store0 limiting = [''over'']"
  by (simp_all add: unconsumed_def engine_defs test_defs)

text \<open>
  Claim C3. The machine of \<^verbatim>\<open>test_counting_fsm\<close>, built by the two constructors and
  \<^verbatim>\<open>add\<close> as the test builds it, with the counter of the counting state at 0 and the
  limit 10: its derived events are exactly \<^verbatim>\<open>('over',)\<close>, whatever the order
  in which the set of states is iterated; \<^verbatim>\<open>run()\<close> returns, with the event \<^verbatim>\<open>'over'\<close>;
  and afterwards the counter is 11.
\<close>

theorem counting_machine:
  assumes "iterates_set set_iter"
  shows "(\<exists>t1 t2 m1.
            Transition_init (PyState counting) ''counted'' (PyState limiting)
              (PyCallable copy_value) = Inr t1 \<and>
            Transition_init (PyState limiting) ''under'' (PyState counting) PyNone = Inr t2 \<and>
            add (FiniteStateMachine_init ''Counting to 10'' counting) (PyTransition t1)
              = Inr m1 \<and>
            add m1 (PyTransition t2) = Inr counting_fsm) \<and>
         events set_iter (test_env counting_fsm) store0 = Inr [''over''] \<and>
         (\<exists>w'. run (test_env counting_fsm) store0 = Some (''over'', w') \<and>
               value_attr w' counting = 11)"
proof (intro conjI)
  show "\<exists>t1 t2 m1.
            Transition_init (PyState counting) ''counted'' (PyState limiting)
              (PyCallable copy_value) = Inr t1 \<and>
            Transition_init (PyState limiting) ''under'' (PyState counting) PyNone = Inr t2 \<and>
            add (FiniteStateMachine_init ''Counting to 10'' counting) (PyTransition t1)
              = Inr m1 \<and>
            add m1 (PyTransition t2) = Inr counting_fsm"
    by (rule counting_fsm_constructed)
next
  have "\<forall>s \<in> machine_states (self_fsm (test_env counting_fsm) store0).
          state_eq_method (test_env counting_fsm) s = None"
    by (simp add: test_env_def)
  from events_enumeration[OF assms this] obtain states where
    d: "distinct states" and s: "set states = machine_states counting_fsm" and
    e: "events set_iter (test_env counting_fsm) store0 =
          Inr (concat (map (unconsumed (test_env counting_fsm) store0) states))"
    by (auto simp: test_env_def)
  have "machine_states counting_fsm = {counting, limiting}"
    by (auto simp: machine_states_def counting_fsm_def)
  moreover have "counting \<noteq> limiting" by (simp add: counting_def limiting_def)
  ultimately have "states = [counting, limiting] \<or> states = [limiting, counting]"
    using d s by (simp add: distinct_pair)
  with e show "events set_iter (test_env counting_fsm) store0 = Inr [''over'']"
    by (auto simp: counting_unconsumed)
next
  show "\<exists>w'. run (test_env counting_fsm) store0 = Some (''over'', w') \<and>
               value_attr w' counting = 11"
    by (simp add: counting_run counting_def limiting_def)
qed

theorem counting_machine_witness:
  "iterates_set id \<and>
   events id (test_env counting_fsm) store0 = Inr [''over''] \<and>
   (\<exists>w'. run (test_env counting_fsm) store0 = Some (''over'', w') \<and>
         value_attr w' counting = 11)"
  using counting_machine[OF iterates_set_id] iterates_set_id by simp

section \<open>Transitions\<close>

text \<open>
  Claim C4 says that \<^verbatim>\<open>match\<close> is true only for the very object that is the
  \<^verbatim>\<open>current_state\<close> of the transition. The code compares with \<^verbatim>\<open>==\<close>: of the two states
  that compare by name, the second is another object than the \<^verbatim>\<open>current_state\<close> of the
  transition, and \<^verbatim>\<open>match\<close> is true for it.
\<close>

theorem match_identity_counterexample:
  "twin_b \<noteq> current_state twin_transition \<and>
   match (twin_env twin_machine) () twin_transition twin_b ''left''"
  by (simp add: engine_defs twin_defs)

text \<open>
  Claim C4, amended. \<^verbatim>\<open>t.match(s, e)\<close> is true exactly when the \<^verbatim>\<open>current_state\<close> of \<open>t\<close>
  \<^verbatim>\<open>==\<close> \<open>s\<close> and the event of \<open>t\<close> \<^verbatim>\<open>==\<close> \<open>e\<close>, both by Python's \<^verbatim>\<open>==\<close>. When neither the
  class of that \<^verbatim>\<open>current_state\<close> nor the class of \<open>s\<close> defines \<^verbatim>\<open>__eq__\<close> (\<^verbatim>\<open>State\<close> defines
  none), the comparison of the states is the identity of the objects: \<^verbatim>\<open>match\<close> is then
  false for every other state object, whatever its name. It is false for the right
  state with an event that does not compare equal.
\<close>

theorem match_python_equality:
  "(match env w t state ev \<longleftrightarrow>
      py_eq env w (current_state t) state \<and> event_eq env (event t) ev) \<and>
   (state_eq_method env (current_state t) = None \<and> state_eq_method env state = None \<longrightarrow>
      (match env w t state ev \<longleftrightarrow> state = current_state t \<and> event_eq env (event t) ev)) \<and>
   (state_eq_method env (current_state t) = None \<and> state_eq_method env state = None \<and>
    state \<noteq> current_state t \<longrightarrow> \<not> match env w t state ev) \<and>
   (\<not> event_eq env (event t) ev \<longrightarrow> \<not> match env w t (current_state t) ev)"
proof (intro conjI impI)
  show m: "match env w t state ev \<longleftrightarrow>
      py_eq env w (current_state t) state \<and> event_eq env (event t) ev"
    by (simp add: match_def)
  show "\<not> match env w t (current_state t) ev" if "\<not> event_eq env (event t) ev"
    using that by (simp add: match_def)
  show "match env w t state ev \<longleftrightarrow> state = current_state t \<and> event_eq env (event t) ev"
    if "state_eq_method env (current_state t) = None \<and> state_eq_method env state = None"
    using that m py_eq_inherited[of env "current_state t" state w] by auto
  show "\<not> match env w t state ev"
    if "state_eq_method env (current_state t) = None \<and> state_eq_method env state = None \<and>
        state \<noteq> current_state t"
    using that m py_eq_inherited[of env "current_state t" state w] by auto
qed

theorem match_python_equality_witness:
  "state_name ((test_env start_machine)\<lparr>state_name := \<lambda>r w. ''Starting''\<rparr>) ending store0 =
   state_name ((test_env start_machine)\<lparr>state_name := \<lambda>r w. ''Starting''\<rparr>) starting store0 \<and>
   match ((test_env start_machine)\<lparr>state_name := \<lambda>r w. ''Starting''\<rparr>) store0
     \<lparr>current_state = starting, event = ''started'', next_state = ending, update = None\<rparr>
     starting ''started'' \<and>
   \<not> match ((test_env start_machine)\<lparr>state_name := \<lambda>r w. ''Starting''\<rparr>) store0
     \<lparr>current_state = starting, event = ''started'', next_state = ending, update = None\<rparr>
     ending ''started'' \<and>
   \<not> match ((test_env start_machine)\<lparr>state_name := \<lambda>r w. ''Starting''\<rparr>) store0
     \<lparr>current_state = starting, event = ''started'', next_state = ending, update = None\<rparr>
     starting ''ended'' \<and>
   \<not> match ((test_env start_machine)\<lparr>state_name := \<lambda>r w. ''Starting''\<rparr>) store0
     \<lparr>current_state = starting, event = ''started'', next_state = ending, update = None\<rparr>
     ending ''ended''"
  using match_python_equality
          [of "(test_env start_machine)\<lparr>state_name := \<lambda>r w. ''Starting''\<rparr>" store0
              "\<lparr>current_state = starting, event = ''started'', next_state = ending, update = None\<rparr>"
              starting "''started''"]
        match_python_equality
          [of "(test_env start_machine)\<lparr>state_name := \<lambda>r w. ''Starting''\<rparr>" store0
              "\<lparr>current_state = starting, event = ''started'', next_state = ending, update = None\<rparr>"
              ending "''started''"]
        match_python_equality
          [of "(test_env start_machine)\<lparr>state_name := \<lambda>r w. ''Starting''\<rparr>" store0
              "\<lparr>current_state = starting, event = ''started'', next_state = ending, update = None\<rparr>"
              ending "''ended''"]
  by (simp add: engine_defs test_env_def starting_def ending_def)

text \<open>
  Claim C6. The constructor of \<^verbatim>\<open>Transition\<close> raises exactly when \<^verbatim>\<open>current_state\<close> is not a
  \<^verbatim>\<open>State\<close>, or \<^verbatim>\<open>next_state\<close> is not a \<^verbatim>\<open>State\<close>, or \<^verbatim>\<open>update\<close> is neither \<^verbatim>\<open>None\<close> nor
  callable. For two states and an update that is \<^verbatim>\<open>None\<close> or callable it succeeds and
  stores its arguments; whether it raises does not depend on the event.
\<close>

theorem Transition_init_raises_iff:
  "(isl (Transition_init current_state' ev next_state' update') \<longleftrightarrow>
      \<not> isinstance_State current_state' \<or> \<not> isinstance_State next_state' \<or>
      (\<not> is_None update' \<and> \<not> callable update')) \<and>
   (isinstance_State current_state' \<and> isinstance_State next_state' \<and>
    (is_None update' \<or> callable update') \<longrightarrow>
      (\<exists>t. Transition_init current_state' ev next_state' update' = Inr t \<and>
           state_of current_state' = Some (current_state t) \<and> event t = ev \<and>
           state_of next_state' = Some (next_state t) \<and> update t = update_of update')) \<and>
   (isl (Transition_init current_state' ev next_state' update') \<longleftrightarrow>
    isl (Transition_init current_state' ev' next_state' update'))"
  by (auto simp: Transition_init_def isinstance_State_def split: option.splits)

theorem Transition_init_raises_iff_witness:
  "Transition_init (PyState starting) ''started'' (PyState ending) PyNone =
     Inr \<lparr>current_state = starting, event = ''started'', next_state = ending,
          update = (None :: (string, store) update_fn option)\<rparr> \<and>
   isl (Transition_init (PyNone :: (string, store) pyval) ''started'' (PyState ending) PyNone) \<and>
   isl (Transition_init (PyState starting :: (string, store) pyval) ''started'' PyNone PyNone) \<and>
   isl (Transition_init (PyState starting :: (string, store) pyval) ''started''
          (PyState ending) (PyInt 2))"
  using Transition_init_raises_iff
          [of "PyState starting :: (string, store) pyval" "''started''" "PyState ending" PyNone]
        Transition_init_raises_iff
          [of "PyNone :: (string, store) pyval" "''started''" "PyState ending" PyNone]
        Transition_init_raises_iff
          [of "PyState starting :: (string, store) pyval" "''started''" PyNone PyNone]
        Transition_init_raises_iff
          [of "PyState starting :: (string, store) pyval" "''started''" "PyState ending" "PyInt 2"]
  by (simp add: Transition_init_def isinstance_State_def)

text \<open>
  Claim C8. Applying a transition whose \<^verbatim>\<open>update\<close> is \<^verbatim>\<open>None\<close>, in particular one that was
  constructed with \<^verbatim>\<open>update=None\<close>, returns its \<^verbatim>\<open>next_state\<close> and leaves the whole store,
  so the data of the source and of the destination state, as it was.
\<close>

theorem apply_without_update:
  "(update t = None \<longrightarrow> apply_transition t w = Some (next_state t, w)) \<and>
   (Transition_init current_state' ev next_state' PyNone = Inr t' \<longrightarrow>
      apply_transition t' w = Some (next_state t', w) \<and>
      state_of next_state' = Some (next_state t'))"
  by (auto simp: apply_transition_def Transition_init_def split: option.splits)

theorem apply_without_update_witness:
  "apply_transition
     \<lparr>current_state = limiting, event = ''under'', next_state = counting, update = None\<rparr> store0
   = Some (counting, store0) \<and>
   Transition_init (PyState limiting) ''under'' (PyState counting) PyNone
   = Inr \<lparr>current_state = limiting, event = ''under'', next_state = counting,
          update = (None :: (string, store) update_fn option)\<rparr>"
  using apply_without_update
          [of "\<lparr>current_state = limiting, event = ''under'', next_state = counting, update = None\<rparr>"
              store0 "PyState limiting" "''under''" "PyState counting"
              "\<lparr>current_state = limiting, event = ''under'', next_state = counting, update = None\<rparr>"]
  by (simp add: Transition_init_def)

section \<open>Lookup of a transition\<close>

lemma find_shadowed:
  "(P b \<longrightarrow> P a) \<Longrightarrow> find P (pre @ a # mid @ b # post) = find P (pre @ a # mid @ post)"
proof (induction pre)
  case Nil
  show ?case
  proof (cases "P a")
    case True
    then show ?thesis by simp
  next
    case False
    with Nil have "\<not> P b" by simp
    then have "find P (mid @ b # post) = find P (mid @ post)"
      by (induction mid) simp_all
    with False show ?thesis by simp
  qed
next
  case (Cons x pre)
  then show ?case by simp
qed

text \<open>
  Claim C5. The lookup goes through the transitions in the order of insertion and
  returns the first one that matches the state and the event, or \<^verbatim>\<open>None\<close> if none
  matches. \<^verbatim>\<open>add\<close> appends, so of two transitions with the same state and event the one
  added later is never the answer: removing it from the list, or not adding it, changes
  no lookup.
\<close>

theorem transition_first_match:
  "transition env w self state ev = find (\<lambda>t. match env w t state ev) (transitions self) \<and>
   (transition env w self state ev = None \<longleftrightarrow>
      (\<forall>t \<in> set (transitions self). \<not> match env w t state ev)) \<and>
   (\<forall>t. transition env w self state ev = Some t \<longleftrightarrow>
      (\<exists>i < length (transitions self).
          transitions self ! i = t \<and> match env w t state ev \<and>
          (\<forall>j < i. \<not> match env w (transitions self ! j) state ev))) \<and>
   (\<forall>pre t1 mid t2 post.
      transitions self = pre @ t1 # mid @ t2 # post \<and>
      current_state t2 = current_state t1 \<and> event t2 = event t1 \<longrightarrow>
      transition env w self state ev =
        transition env w (self\<lparr>transitions := pre @ t1 # mid @ post\<rparr>) state ev) \<and>
   (\<forall>t1 t2 self'.
      t1 \<in> set (transitions self) \<and>
      current_state t2 = current_state t1 \<and> event t2 = event t1 \<and>
      add self (PyTransition t2) = Inr self' \<longrightarrow>
      transitions self' = transitions self @ [t2] \<and>
      transition env w self' state ev = transition env w self state ev)"
proof (intro conjI allI impI)
  show "transition env w self state ev = find (\<lambda>t. match env w t state ev) (transitions self)"
    by (rule transition_find)
  show "transition env w self state ev = None \<longleftrightarrow>
      (\<forall>t \<in> set (transitions self). \<not> match env w t state ev)"
    by (rule transition_None)
next
  fix t
  show "transition env w self state ev = Some t \<longleftrightarrow>
      (\<exists>i < length (transitions self).
          transitions self ! i = t \<and> match env w t state ev \<and>
          (\<forall>j < i. \<not> match env w (transitions self ! j) state ev))"
    unfolding transition_find find_Some_iff by auto
next
  fix pre t1 mid t2 post
  assume a: "transitions self = pre @ t1 # mid @ t2 # post \<and>
      current_state t2 = current_state t1 \<and> event t2 = event t1"
  then have "match env w t2 state ev \<longrightarrow> match env w t1 state ev"
    by (simp add: match_def)
  then have "find (\<lambda>t. match env w t state ev) (pre @ t1 # mid @ t2 # post) =
             find (\<lambda>t. match env w t state ev) (pre @ t1 # mid @ post)"
    by (rule find_shadowed)
  with a show "transition env w self state ev =
        transition env w (self\<lparr>transitions := pre @ t1 # mid @ post\<rparr>) state ev"
    by (simp add: transition_find)
next
  fix t1 t2 self'
  assume a: "t1 \<in> set (transitions self) \<and>
      current_state t2 = current_state t1 \<and> event t2 = event t1 \<and>
      add self (PyTransition t2) = Inr self'"
  then have app: "transitions self' = transitions self @ [t2]"
    by (auto simp: add_def)
  from a obtain pre mid where sp: "transitions self = pre @ t1 # mid"
    by (auto dest: split_list)
  from a have "match env w t2 state ev \<longrightarrow> match env w t1 state ev"
    by (simp add: match_def)
  then have "find (\<lambda>t. match env w t state ev) (pre @ t1 # mid @ t2 # []) =
             find (\<lambda>t. match env w t state ev) (pre @ t1 # mid @ [])"
    by (rule find_shadowed)
  with app sp show "transition env w self' state ev = transition env w self state ev"
    by (simp add: transition_find)
  from app show "transitions self' = transitions self @ [t2]" .
qed

theorem transition_first_match_witness:
  "transition (test_env counting_fsm) store0
     \<lparr>name = ''Twice'', start_state = counting,
      transitions =
        [\<lparr>current_state = counting, event = ''counted'', next_state = limiting,
          update = Some copy_value\<rparr>,
         \<lparr>current_state = limiting, event = ''under'', next_state = counting,
          update = None\<rparr>,
         \<lparr>current_state = counting, event = ''counted'', next_state = counting,
          update = None\<rparr>]\<rparr> counting ''counted''
   = Some \<lparr>current_state = counting, event = ''counted'', next_state = limiting,
            update = Some copy_value\<rparr> \<and>
   add counting_fsm
     (PyTransition \<lparr>current_state = counting, event = ''counted'', next_state = counting,
                    update = None\<rparr>)
   = Inr \<lparr>name = ''Counting to 10'', start_state = counting,
      transitions =
        [\<lparr>current_state = counting, event = ''counted'', next_state = limiting,
          update = Some copy_value\<rparr>,
         \<lparr>current_state = limiting, event = ''under'', next_state = counting,
          update = None\<rparr>,
         \<lparr>current_state = counting, event = ''counted'', next_state = counting,
          update = None\<rparr>]\<rparr>"
  using transition_first_match
          [of "test_env counting_fsm" store0
              "\<lparr>name = ''Twice'', start_state = counting,
      transitions =
        [\<lparr>current_state = counting, event = ''counted'', next_state = limiting,
          update = Some copy_value\<rparr>,
         \<lparr>current_state = limiting, event = ''under'', next_state = counting,
          update = None\<rparr>,
         \<lparr>current_state = counting, event = ''counted'', next_state = counting,
          update = None\<rparr>]\<rparr>" counting "''counted''"]
  by (simp add: engine_defs add_def test_defs)

section \<open>String representation of a machine\<close>

text \<open>
  Claim C7 says that \<^verbatim>\<open>FiniteStateMachine.__str__\<close> returns the rendering of the machine as
  its string result. The method never returns a string, for any machine: it prints the
  rendering and returns \<^verbatim>\<open>None\<close>, or it raises. For the machine of \<^verbatim>\<open>test_events\<close> the
  printed text and the returned value are as follows, so that \<^verbatim>\<open>str(machine)\<close> raises
  \<^verbatim>\<open>TypeError\<close>; and for a machine that has this machine as its start state, only the
  rendering of the inner machine is printed before the exception.
\<close>

theorem FiniteStateMachine_str_returns_None:
  "(\<forall>s. returned (FiniteStateMachine_str set_iter env w) \<noteq> Inr (Some s)) \<and>
   FiniteStateMachine_str id (test_env start_machine) store0 =
     \<lparr>printed = ''FSM: Start machine\<newline>\<newline>  Start state: Starting\<newline>\<newline>  Transitions:\<newline>\<newline>  Events:\<newline>    started\<newline>\<newline>'',
      returned = Inr None\<rparr> \<and>
   str_of_machine id (test_env start_machine) store0 =
     (''FSM: Start machine\<newline>\<newline>  Start state: Starting\<newline>\<newline>  Transitions:\<newline>\<newline>  Events:\<newline>    started\<newline>\<newline>'',
      Inl (TypeError ''__str__ returned non-string (type NoneType)'')) \<and>
   FiniteStateMachine_str id nested_env store0 =
     \<lparr>printed = ''FSM: Start machine\<newline>\<newline>  Start state: Starting\<newline>\<newline>  Transitions:\<newline>\<newline>  Events:\<newline>    started\<newline>\<newline>'',
      returned = Inl (TypeError ''__str__ returned non-string (type NoneType)'')\<rparr>"
proof (intro conjI allI)
  fix s
  show "returned (FiniteStateMachine_str set_iter env w) \<noteq> Inr (Some s)"
    by (simp add: FiniteStateMachine_str_def Let_def split: prod.splits sum.splits)
  show one: "FiniteStateMachine_str id (test_env start_machine) store0 =
     \<lparr>printed = ''FSM: Start machine\<newline>\<newline>  Start state: Starting\<newline>\<newline>  Transitions:\<newline>\<newline>  Events:\<newline>    started\<newline>\<newline>'',
      returned = Inr None\<rparr>"
    by (simp add: FiniteStateMachine_str_def events_def engine_defs test_defs newline_def
          Transition_str_def)
  then show two: "str_of_machine id (test_env start_machine) store0 =
     (''FSM: Start machine\<newline>\<newline>  Start state: Starting\<newline>\<newline>  Transitions:\<newline>\<newline>  Events:\<newline>    started\<newline>\<newline>'',
      Inl (TypeError ''__str__ returned non-string (type NoneType)''))"
    by (simp add: str_of_machine_def)
  then show "FiniteStateMachine_str id nested_env store0 =
     \<lparr>printed = ''FSM: Start machine\<newline>\<newline>  Start state: Starting\<newline>\<newline>  Transitions:\<newline>\<newline>  Events:\<newline>    started\<newline>\<newline>'',
      returned = Inl (TypeError ''__str__ returned non-string (type NoneType)'')\<rparr>"
    by (simp add: FiniteStateMachine_str_def nested_env_def outer_machine_def
          FiniteStateMachine_init_def test_env_def)
qed

section \<open>What a run leaves unchanged\<close>





lemma steady_run:
  "run steady_env \<lparr>edges = [(first, ''go'', second, True)], visits = 0\<rparr> =
     Some (''ended'', \<lparr>edges = [(first, ''go'', second, True)], visits = 11\<rparr>)"
  by (simp add: run_def run_loop.simps engine_defs stored_defs)


end
